theory Spec2Isabelle
  imports Complex_Main "HOL-Library.Sublist" "HOL-Library.AList"
begin

section \<open>Python string primitives used by \<open>train.py\<close>\<close>

text \<open>
  Strings are byte strings; directory and file names are taken to be ASCII. The helpers
  below follow CPython's \<open>str.split(sep)\<close>, \<open>str.replace(old, new)\<close>,
  \<open>int(str)\<close> (base 10), \<open>'{}'.format(int)\<close> and \<open>posixpath.join\<close> with two
  arguments.
\<close>

datatype error =
    NotImplementedError
  | ZeroDivisionError
  | FileNotFoundError
  | TypeError
  | RuntimeError

text \<open>
  \<open>s.split(sep)\<close> for a non-empty separator: scan from the left, cut at every
  occurrence, continue after it. \<open>acc\<close> holds the current piece, reversed.
\<close>

fun split_aux :: "string \<Rightarrow> string \<Rightarrow> string \<Rightarrow> string list" where
  "split_aux sep acc [] = [rev acc]"
| "split_aux sep acc (c # cs) =
     (if prefix sep (c # cs)
      then rev acc # split_aux sep [] (drop (length sep - 1) cs)
      else split_aux sep (c # acc) cs)"

definition py_split :: "string \<Rightarrow> string \<Rightarrow> string list" where
  "py_split s sep = split_aux sep [] s"

text \<open>
  \<open>s.replace(old, new)\<close>: every non-overlapping occurrence, from the left. With an
  empty \<open>old\<close> Python inserts \<open>new\<close> before every character and at the end.
\<close>

fun replace_aux :: "string \<Rightarrow> string \<Rightarrow> string \<Rightarrow> string" where
  "replace_aux old new [] = []"
| "replace_aux old new (c # cs) =
     (if prefix old (c # cs)
      then new @ replace_aux old new (drop (length old - 1) cs)
      else c # replace_aux old new cs)"

definition py_replace :: "string \<Rightarrow> string \<Rightarrow> string \<Rightarrow> string" where
  "py_replace s old new =
     (if old = [] then new @ concat (map (\<lambda>c. c # new) s) else replace_aux old new s)"

text \<open>
  \<open>int(s)\<close>: surrounding whitespace is stripped, one optional sign, then decimal digits
  in which single underscores may separate digits. Anything else is a \<open>ValueError\<close>,
  here \<open>None\<close>.
\<close>

definition is_space :: "char \<Rightarrow> bool" where
  "is_space c = (c \<in> set [CHR 0x09, CHR 0x0A, CHR 0x0B, CHR 0x0C, CHR 0x0D,
                            CHR 0x1C, CHR 0x1D, CHR 0x1E, CHR 0x1F, CHR '' ''])"

definition is_digit :: "char \<Rightarrow> bool" where
  "is_digit c = (c \<in> set ''0123456789'')"

definition digit_val :: "char \<Rightarrow> nat" where
  "digit_val c = of_char c - 48"

definition py_strip :: "string \<Rightarrow> string" where
  "py_strip s = rev (dropWhile is_space (rev (dropWhile is_space s)))"

text \<open>
  The digit string after the sign. \<open>prev_digit\<close> tells whether the previous character
  was a digit: an underscore is accepted only between two digits.
\<close>

fun parse_digits :: "bool \<Rightarrow> nat \<Rightarrow> string \<Rightarrow> nat option" where
  "parse_digits prev_digit acc [] = (if prev_digit then Some acc else None)"
| "parse_digits prev_digit acc (c # cs) =
     (if is_digit c then parse_digits True (10 * acc + digit_val c) cs
      else if c = CHR ''_'' \<and> prev_digit then parse_digits False acc cs
      else None)"

definition py_int :: "string \<Rightarrow> int option" where
  "py_int s =
     (case py_strip s of
        [] \<Rightarrow> None
      | c # cs \<Rightarrow>
          if c = CHR ''-'' then map_option (\<lambda>n. - int n) (parse_digits False 0 cs)
          else if c = CHR ''+'' then map_option int (parse_digits False 0 cs)
          else map_option int (parse_digits False 0 (c # cs)))"

text \<open>\<open>'{}'.format(i)\<close> for an integer: its decimal digits, with a minus sign if negative.\<close>

definition digit_char :: "nat \<Rightarrow> char" where
  "digit_char d = ''0123456789'' ! d"

function str_nat :: "nat \<Rightarrow> string" where
  "str_nat n = (if n < 10 then [digit_char n] else str_nat (n div 10) @ [digit_char (n mod 10)])"
  by pat_completeness auto
termination
  by (relation "measure id") auto

declare str_nat.simps [simp del]

definition str_int :: "int \<Rightarrow> string" where
  "str_int i = (if i < 0 then CHR ''-'' # str_nat (nat (- i)) else str_nat (nat i))"

text \<open>\<open>os.path.join(a, b)\<close> on POSIX.\<close>

definition os_path_join :: "string \<Rightarrow> string \<Rightarrow> string" where
  "os_path_join a b =
     (if prefix ''/'' b then b
      else if a = [] \<or> suffix ''/'' a then a @ b
      else a @ ''/'' @ b)"

section \<open>Run-folder allocation: \<open>get_output_folder\<close>\<close>

text \<open>
  The file system as the function sees it: \<open>listing\<close> is \<open>os.listdir(parent_dir)\<close>, each
  name paired with the answer of \<open>os.path.isdir\<close> on it; \<open>made\<close> records the paths
  handed to \<open>os.makedirs\<close>, latest first.
\<close>

record dir_state =
  listing :: "(string \<times> bool) list"
  made :: "string list"

text \<open>The expression \<open>int(folder_name.split('-run')[-1])\<close>; \<open>None\<close> when \<open>int\<close> raises.\<close>

definition run_number :: "string \<Rightarrow> int option" where
  "run_number folder_name = py_int (last (py_split folder_name ''-run''))"

text \<open>
  One iteration of the \<open>for folder_name in os.listdir(parent_dir)\<close> loop. The bare
  \<open>except: pass\<close> turns a failed \<open>int\<close> into "leave \<open>experiment_id\<close> as it is".
\<close>

definition scan_step :: "string \<times> bool \<Rightarrow> int \<Rightarrow> int" where
  "scan_step entry experiment_id =
     (case entry of (folder_name, is_dir) \<Rightarrow>
        if \<not> is_dir then experiment_id
        else (case run_number folder_name of
                None \<Rightarrow> experiment_id
              | Some n \<Rightarrow> if n > experiment_id then n else experiment_id))"

definition scan_folders :: "(string \<times> bool) list \<Rightarrow> int" where
  "scan_folders entries = fold scan_step entries 0"

definition get_output_folder :: "string \<Rightarrow> string \<Rightarrow> dir_state \<Rightarrow> string \<times> dir_state" where
  "get_output_folder parent_dir env_name st =
     (let st1 = st\<lparr>made := parent_dir # made st\<rparr>;
          experiment_id = scan_folders (listing st1) + 1;
          parent_dir' = os_path_join parent_dir env_name;
          parent_dir'' = parent_dir' @ ''-run'' @ str_int experiment_id
      in (parent_dir'', st1\<lparr>made := parent_dir'' # made st1\<rparr>))"


section \<open>Command line\<close>

text \<open>The namespace returned by \<open>parse_args\<close>; \<open>eval_flag\<close> is \<open>args.eval\<close>.\<close>

record args =
  model :: string
  dataset :: string
  lr :: real
  n_gpu :: int
  batch_size :: int
  n_worker :: int
  lr_type :: string
  n_epoch :: int
  wd :: real
  seed :: "int option"
  data_root :: "string option"
  ckpt_path :: "string option"
  eval_flag :: bool
  mixup :: bool
  prune_layer :: "string list option"

text \<open>The defaults of \<open>parse_args\<close>: what an empty command line gives.\<close>

definition default_args :: args where
  "default_args =
     \<lparr>model = ''mobilenet'', dataset = ''imagenet'', lr = 0.1, n_gpu = 1, batch_size = 128,
      n_worker = 4, lr_type = ''exp'', n_epoch = 150, wd = 4 / 100000, seed = None,
      data_root = None, ckpt_path = None, eval_flag = False, mixup = False,
      prune_layer = None\<rparr>"

section \<open>Tensors, serialized values, model and optimizer\<close>

text \<open>
  Python floats are modelled as reals: accuracies and learning rates are finite, and the
  arithmetic of the script on them is read exactly, without rounding. The statements about
  rates below are kept to what rounding to doubles preserves: equalities of the same
  expression, exact endpoints, and orders that are not strict. A tensor is a shape and its
  entries.
\<close>

record tensor =
  shape :: "nat list"
  vals :: "real list"

text \<open>What \<open>torch.save\<close> writes and \<open>torch.load\<close> returns; a dict keeps its insertion order.\<close>

datatype pyval =
    PInt int
  | PFloat real
  | PStr string
  | PTensor tensor
  | PList "pyval list"
  | PDict "(string \<times> pyval) list"

text \<open>
  A network module: its architecture name, its named parameters and its device. The
  driver may wrap it in \<open>torch.nn.DataParallel\<close> with a list of device ids.
\<close>

record module =
  arch :: string
  params :: "(string \<times> tensor) list"
  on_cuda :: bool

datatype net =
    Module module
  | DataParallel module "int list"

fun state_dict :: "net \<Rightarrow> pyval" where
  "state_dict (Module m) = PDict (map (\<lambda>(k, t). (k, PTensor t)) (params m))"
| "state_dict (DataParallel m ids) =
     PDict (map (\<lambda>(k, t). (''module.'' @ k, PTensor t)) (params m))"

text \<open>
  \<open>module.load_state_dict(sd)\<close> with the default \<open>strict=True\<close>: every parameter needs
  an entry holding a tensor of its shape, and no other key may be present.
\<close>

definition loadable :: "(string \<times> pyval) list \<Rightarrow> string \<times> tensor \<Rightarrow> tensor option" where
  "loadable d p =
     (case map_of d (fst p) of
        Some (PTensor t') \<Rightarrow> if shape t' = shape (snd p) then Some t' else None
      | _ \<Rightarrow> None)"

definition load_state_dict :: "module \<Rightarrow> pyval \<Rightarrow> error + module" where
  "load_state_dict m sd =
     (case sd of
        PDict d \<Rightarrow>
          if list_all (\<lambda>k. k \<in> set (map fst (params m))) (map fst d)
             \<and> list_all (\<lambda>p. loadable d p \<noteq> None) (params m)
          then Inr (m\<lparr>params := map (\<lambda>p. (fst p, the (loadable d p))) (params m)\<rparr>)
          else Inl RuntimeError
      | _ \<Rightarrow> Inl TypeError)"

text \<open>
  \<open>get_model\<close>. The constructors \<open>vgg16_bn\<close> and \<open>vgg16_bn_x\<close> live in
  \<open>models/vgg.py\<close>; the freshly built modules are parameters here.
\<close>

definition get_model :: "args \<Rightarrow> bool \<Rightarrow> module \<Rightarrow> module \<Rightarrow> error + module" where
  "get_model a use_cuda vgg16_bn vgg16_bn_x =
     (if model a = ''vgg16_bn'' then
        Inr (if use_cuda then vgg16_bn\<lparr>on_cuda := True\<rparr> else vgg16_bn)
      else if model a = ''vgg16_bn_x'' then
        Inr (if use_cuda then vgg16_bn_x\<lparr>on_cuda := True\<rparr> else vgg16_bn_x)
      else Inl NotImplementedError)"

text \<open>
  The optimizer: its parameter groups (each a dict of hyperparameters) and its per-parameter
  state (the momentum buffers).
\<close>

record optimizer =
  param_groups :: "(string \<times> real) list list"
  opt_state :: "(string \<times> tensor) list"

text \<open>\<open>optim.SGD(net.parameters(), lr=..., momentum=..., weight_decay=...)\<close>: one group, no state yet.\<close>

definition SGD :: "real \<Rightarrow> real \<Rightarrow> real \<Rightarrow> optimizer" where
  "SGD lr0 momentum weight_decay =
     \<lparr>param_groups = [[(''lr'', lr0), (''momentum'', momentum), (''dampening'', 0),
                       (''weight_decay'', weight_decay)]],
      opt_state = []\<rparr>"

definition optimizer_state_dict :: "optimizer \<Rightarrow> pyval" where
  "optimizer_state_dict opt =
     PDict [(''state'', PDict (map (\<lambda>(k, t). (k, PTensor t)) (opt_state opt))),
            (''param_groups'',
               PList (map (\<lambda>g. PDict (map (\<lambda>(k, v). (k, PFloat v)) g)) (param_groups opt)))]"

section \<open>Mixup\<close>

text \<open>
  \<open>mixup_data\<close>. A batch is the list of its samples, each an element of a real vector
  space. The two random draws are parameters: \<open>beta_sample\<close> is the value of
  \<open>np.random.beta(alpha, alpha)\<close> and \<open>index\<close> the value of \<open>torch.randperm(batch_size)\<close>.
  \<open>use_cuda\<close> only moves \<open>index\<close> to the device.
\<close>

definition mixup_data ::
  "'a::real_vector list \<Rightarrow> 'l list \<Rightarrow> real \<Rightarrow> bool \<Rightarrow> real \<Rightarrow> nat list
   \<Rightarrow> 'a list \<times> 'l list \<times> 'l list \<times> real" where
  "mixup_data x y alpha use_cuda beta_sample index =
     (let lam = (if alpha > 0 then beta_sample else 1);
          mixed_x = map2 (\<lambda>u v. lam *\<^sub>R u + (1 - lam) *\<^sub>R v) x (map (\<lambda>i. x ! i) index);
          y_a = y;
          y_b = map (\<lambda>i. y ! i) index
      in (mixed_x, y_a, y_b, lam))"

definition mixup_criterion ::
  "('p \<Rightarrow> 'l list \<Rightarrow> real) \<Rightarrow> 'p \<Rightarrow> 'l list \<Rightarrow> 'l list \<Rightarrow> real \<Rightarrow> real" where
  "mixup_criterion criterion pred y_a y_b lam =
     lam * criterion pred y_a + (1 - lam) * criterion pred y_b"

section \<open>Learning-rate schedule\<close>

text \<open>
  \<open>adjust_learning_rate\<close>: the new rate and the optimizer with the rate written into
  every parameter group. \<open>math.pi * epoch / args.n_epoch\<close> divides a float by an int and
  raises \<open>ZeroDivisionError\<close> when that int is 0.
\<close>

definition adjust_learning_rate :: "args \<Rightarrow> optimizer \<Rightarrow> int \<Rightarrow> error + real \<times> optimizer" where
  "adjust_learning_rate a opt epoch =
     (let r =
        (if lr_type a = ''cos'' then
           (if n_epoch a = 0 then Inl ZeroDivisionError
            else Inr (0.5 * lr a * (1 + cos (pi * of_int epoch / of_int (n_epoch a)))))
         else if lr_type a = ''exp'' then
           (let step = 1; decay = 0.96 in Inr (lr a * (decay powi (epoch div step))))
         else if lr_type a = ''fixed'' then Inr (lr a)
         else Inl NotImplementedError)
      in case r of
           Inl e \<Rightarrow> Inl e
         | Inr new_lr \<Rightarrow>
             Inr (new_lr,
                  opt\<lparr>param_groups := map (AList.update ''lr'' new_lr) (param_groups opt)\<rparr>))"

text \<open>
  The schedule as the specification words it: \<open>cos\<close> is
  \<open>0.5 * lr0 * (1 + cos(\<pi> * epoch / n_epoch))\<close>, \<open>exp\<close> is \<open>lr0 * 0.96^epoch\<close>, \<open>fixed\<close> is
  \<open>lr0\<close>.
\<close>

definition spec_lr :: "string \<Rightarrow> real \<Rightarrow> int \<Rightarrow> int \<Rightarrow> real" where
  "spec_lr policy lr0 total_epochs epoch =
     (if policy = ''cos'' then 0.5 * lr0 * (1 + cos (pi * of_int epoch / of_int total_epochs))
      else if policy = ''exp'' then lr0 * 0.96 powi epoch
      else lr0)"

section \<open>Checkpoints and the validation epoch\<close>

text \<open>
  The process state the free functions share through globals, and the checkpoint files:
  \<open>files\<close> maps a path to what \<open>torch.save\<close> wrote there. Failures of the underlying I/O
  are outside the model.
\<close>

record session =
  best_acc :: real
  start_epoch :: int
  net :: net
  optimizer :: optimizer
  files :: "string \<rightharpoonup> pyval"

definition save_checkpoint ::
  "pyval \<Rightarrow> bool \<Rightarrow> string \<Rightarrow> (string \<rightharpoonup> pyval) \<Rightarrow> (string \<rightharpoonup> pyval)" where
  "save_checkpoint state is_best checkpoint_dir fs =
     (let filename = os_path_join checkpoint_dir ''ckpt.pth.tar'';
          fs1 = fs(filename \<mapsto> state)
      in if is_best
         then fs1(py_replace filename ''.pth.tar'' ''.best.pth.tar'' := fs1 filename)
         else fs1)"

text \<open>
  The part of \<open>test\<close> after the batch loop. \<open>top1_avg\<close> is \<open>top1.avg\<close>, the result of the
  loop (the forward passes, \<open>accuracy\<close> and \<open>AverageMeter\<close> are the framework's and
  \<open>utils\<close>'s). The scalars sent to the summary writer are not part of the state.
\<close>

definition checkpoint_record :: "args \<Rightarrow> int \<Rightarrow> real \<Rightarrow> session \<Rightarrow> pyval" where
  "checkpoint_record a epoch top1_avg s =
     PDict [(''epoch'', PInt epoch),
            (''model'', PStr (model a)),
            (''dataset'', PStr (dataset a)),
            (''state_dict'',
               (case net s of DataParallel m ids \<Rightarrow> state_dict (Module m)
                | Module m \<Rightarrow> state_dict (net s))),
            (''acc'', PFloat top1_avg),
            (''optimizer'', optimizer_state_dict (optimizer s))]"

definition test :: "args \<Rightarrow> string \<Rightarrow> int \<Rightarrow> real \<Rightarrow> bool \<Rightarrow> session \<Rightarrow> session" where
  "test a log_dir epoch top1_avg save s =
     (if save then
        (let is_best = (top1_avg > best_acc s);
             s1 = (if is_best then s\<lparr>best_acc := top1_avg\<rparr> else s)
         in s1\<lparr>files :=
                 save_checkpoint (checkpoint_record a epoch top1_avg s1) is_best log_dir
                   (files s1)\<rparr>)
      else s)"

section \<open>The driver\<close>

text \<open>
  The resume branch: \<open>torch.load\<close>, then the wrapped or the raw state dict, then
  \<open>net.load_state_dict\<close>. Nothing else of the checkpoint is read.
\<close>

definition resume :: "args \<Rightarrow> (string \<rightharpoonup> pyval) \<Rightarrow> module \<Rightarrow> error + module" where
  "resume a fs m =
     (case ckpt_path a of
        None \<Rightarrow> Inr m
      | Some path \<Rightarrow>
          (case fs path of
             None \<Rightarrow> Inl FileNotFoundError
           | Some checkpoint \<Rightarrow>
               (case checkpoint of
                  PDict d \<Rightarrow>
                    (let sd = (case map_of d ''state_dict'' of
                                 Some v \<Rightarrow> v
                               | None \<Rightarrow> checkpoint)
                     in load_state_dict m sd)
                | _ \<Rightarrow> Inl TypeError)))"

text \<open>
  The start of \<open>__main__\<close> without the data pipeline: the two globals, the model built
  twice (the first for profiling), the resume branch, the device placement and the
  optimizer.
\<close>

definition start_session ::
  "args \<Rightarrow> bool \<Rightarrow> module \<Rightarrow> module \<Rightarrow> (string \<rightharpoonup> pyval) \<Rightarrow> error + session" where
  "start_session a use_cuda vgg16_bn vgg16_bn_x fs =
     (let best = 0; start = 0 in
      case get_model a use_cuda vgg16_bn vgg16_bn_x of
        Inl e \<Rightarrow> Inl e
      | Inr profiled \<Rightarrow>
          (case get_model a use_cuda vgg16_bn vgg16_bn_x of
             Inl e \<Rightarrow> Inl e
           | Inr m \<Rightarrow>
               (case resume a fs m of
                  Inl e \<Rightarrow> Inl e
                | Inr m' \<Rightarrow>
                    (let n = (if use_cuda \<and> n_gpu a > 1 then DataParallel m' [0 .. n_gpu a - 1]
                              else if use_cuda then Module (m'\<lparr>on_cuda := True\<rparr>)
                              else Module m')
                     in Inr \<lparr>best_acc = best, start_epoch = start, net = n,
                             optimizer = SGD (lr a) 0.9 (wd a), files = fs\<rparr>))))"

text \<open>
  The epoch loop \<open>for epoch in range(start_epoch, start_epoch + args.n_epoch)\<close>. The
  training epoch and the batch loop of the validation epoch are parameters: \<open>train_fn\<close>
  gives the network and optimizer after \<open>train(epoch, train_loader)\<close>, \<open>eval_fn\<close> gives
  \<open>top1.avg\<close> of \<open>test(epoch, val_loader)\<close>.
\<close>

fun epoch_loop ::
  "args \<Rightarrow> string \<Rightarrow> (int \<Rightarrow> net \<times> optimizer \<Rightarrow> net \<times> optimizer) \<Rightarrow> (int \<Rightarrow> net \<Rightarrow> real)
   \<Rightarrow> int list \<Rightarrow> session \<Rightarrow> error + session" where
  "epoch_loop a log_dir train_fn eval_fn [] s = Inr s"
| "epoch_loop a log_dir train_fn eval_fn (epoch # epochs) s =
     (case adjust_learning_rate a (optimizer s) epoch of
        Inl e \<Rightarrow> Inl e
      | Inr (new_lr, opt) \<Rightarrow>
          (let (n', opt') = train_fn epoch (net s, opt);
               s1 = s\<lparr>net := n', optimizer := opt'\<rparr>;
               s2 = test a log_dir epoch (eval_fn epoch n') True s1
           in epoch_loop a log_dir train_fn eval_fn epochs s2))"

definition epoch_range :: "args \<Rightarrow> session \<Rightarrow> int list" where
  "epoch_range a s = [start_epoch s .. start_epoch s + n_epoch a - 1]"

text \<open>The end of \<open>__main__\<close>: evaluation only, or the log folder and the epoch loop.\<close>

definition run ::
  "args \<Rightarrow> (int \<Rightarrow> net \<times> optimizer \<Rightarrow> net \<times> optimizer) \<Rightarrow> (int \<Rightarrow> net \<Rightarrow> real)
   \<Rightarrow> session \<Rightarrow> dir_state \<Rightarrow> error + session \<times> dir_state" where
  "run a train_fn eval_fn s st =
     (if eval_flag a then Inr (test a [] 0 (eval_fn 0 (net s)) False s, st)
      else
        (case get_output_folder ''./logs'' (model a @ ''_'' @ dataset a @ ''_finetune'') st of
           (log_dir, st') \<Rightarrow>
             (case epoch_loop a log_dir train_fn eval_fn (epoch_range a s) s of
                Inl e \<Rightarrow> Inl e
              | Inr s' \<Rightarrow> Inr (s', st'))))"

section \<open>Helpers for the statements\<close>

text \<open>\<open>net.module\<close> for a wrapped network, the network itself otherwise.\<close>

fun net_module :: "net \<Rightarrow> module" where
  "net_module (Module m) = m"
| "net_module (DataParallel m ids) = m"

text \<open>The entry \<open>checkpoint[key]\<close> of the record stored in a file, if there is one.\<close>

definition ckpt_field :: "pyval option \<Rightarrow> string \<Rightarrow> pyval option" where
  "ckpt_field file key = (case file of Some (PDict d) \<Rightarrow> map_of d key | _ \<Rightarrow> None)"

text \<open>The signature of a module: parameter names with their shapes, in order.\<close>

definition signature :: "module \<Rightarrow> (string \<times> nat list) list" where
  "signature m = map (\<lambda>p. (fst p, shape (snd p))) (params m)"

text \<open>Concrete values for the examples: a one-parameter module before and after training.\<close>

definition fresh_module :: module where
  "fresh_module =
     \<lparr>arch = ''vgg16_bn'', params = [(''w'', \<lparr>shape = [2], vals = [0, 0]\<rparr>)], on_cuda = False\<rparr>"

definition trained_module :: module where
  "trained_module =
     \<lparr>arch = ''vgg16_bn'', params = [(''w'', \<lparr>shape = [2], vals = [3, 5]\<rparr>)], on_cuda = False\<rparr>"

definition example_args :: args where
  "example_args = default_args\<lparr>model := ''vgg16_bn'', ckpt_path := Some ''logs/ckpt.pth.tar''\<rparr>"

definition example_session :: session where
  "example_session =
     \<lparr>best_acc = 50, start_epoch = 0, net = Module trained_module,
      optimizer = SGD 0.1 0.9 0, files = Map.empty\<rparr>"

text \<open>A checkpoint as an earlier run left it: epoch 7, accuracy 60, its own optimizer state.\<close>

definition stored_checkpoint :: pyval where
  "stored_checkpoint =
     PDict [(''epoch'', PInt 7), (''model'', PStr ''vgg16_bn''), (''dataset'', PStr ''imagenet''),
            (''state_dict'', state_dict (Module trained_module)),
            (''acc'', PFloat 60),
            (''optimizer'', optimizer_state_dict (SGD 0.05 0.9 0))]"

section \<open>Properties of the string primitives\<close>

lemma split_aux_nonempty: "split_aux sep acc s \<noteq> []"
  by (induction sep acc s rule: split_aux.induct) auto

lemma split_aux_skip:
  "\<not> prefix sep (c # cs) \<Longrightarrow> split_aux sep acc (c # cs) = split_aux sep (c # acc) cs"
  by simp

lemma split_aux_cut:
  "prefix sep (c # cs) \<Longrightarrow>
   last (split_aux sep acc (c # cs)) = last (split_aux sep [] (drop (length sep - 1) cs))"
  by (simp add: split_aux_nonempty)

lemma split_aux_last_absent:
  "\<not> sublist sep s \<Longrightarrow> last (split_aux sep acc s) = rev acc @ s"
proof (induction s arbitrary: acc)
  case Nil
  then show ?case by simp
next
  case (Cons c cs)
  have np: "\<not> prefix sep (c # cs)"
    using Cons.prems prefix_imp_sublist by blast
  have "\<not> sublist sep cs"
    using Cons.prems by (auto simp: sublist_Cons_right)
  then show ?case using Cons.IH np by simp
qed

text \<open>The separator has no border: an occurrence cannot start inside the last three characters before another one.\<close>

lemma run_prefix_long:
  assumes "prefix ''-run'' (c # pre @ ''-run'' @ suf)"
  shows "\<exists>pre'. pre = ''run'' @ pre'"
proof -
  from assms have p: "prefix ''run'' (pre @ ''-run'' @ suf)"
    by auto
  show ?thesis
  proof (cases pre)
    case Nil
    with p show ?thesis by simp
  next
    case (Cons a1 r1)
    note c1 = Cons
    show ?thesis
    proof (cases r1)
      case Nil
      with p c1 show ?thesis by simp
    next
      case (Cons a2 r2)
      note c2 = Cons
      show ?thesis
      proof (cases r2)
        case Nil
        with p c1 c2 show ?thesis by simp
      next
        case (Cons a3 r3)
        with p c1 c2 show ?thesis by simp
      qed
    qed
  qed
qed

lemma split_aux_last_run:
  assumes "\<not> sublist ''-run'' suf"
  shows "last (split_aux ''-run'' acc (pre @ ''-run'' @ suf)) = suf"
proof (induction pre arbitrary: acc rule: length_induct)
  case (1 pre)
  define sep where "sep = ''-run''"
  have len: "length sep - 1 = 3" by (simp add: sep_def)
  have IH: "\<And>ys acc. length ys < length pre \<Longrightarrow> last (split_aux sep acc (ys @ sep @ suf)) = suf"
    using 1 by (simp add: sep_def)
  have absent: "\<not> sublist sep suf" using assms by (simp add: sep_def)
  have "last (split_aux sep acc (pre @ sep @ suf)) = suf"
  proof (cases pre)
    case Nil
    have "sep @ suf = CHR ''-'' # (''run'' @ suf)" by (simp add: sep_def)
    moreover have "prefix sep (CHR ''-'' # (''run'' @ suf))" by (simp add: sep_def)
    ultimately have "last (split_aux sep acc (sep @ suf)) = last (split_aux sep [] (drop 3 (''run'' @ suf)))"
      using split_aux_cut len by metis
    also have "\<dots> = last (split_aux sep [] suf)" by simp
    also have "\<dots> = suf" using absent by (simp add: split_aux_last_absent)
    finally show ?thesis using Nil by simp
  next
    case (Cons c cs)
    show ?thesis
    proof (cases "prefix sep (c # cs @ sep @ suf)")
      case True
      then obtain pre' where pre': "cs = ''run'' @ pre'"
        using run_prefix_long unfolding sep_def by blast
      have "last (split_aux sep acc (c # cs @ sep @ suf))
            = last (split_aux sep [] (drop 3 (cs @ sep @ suf)))"
        by (rule split_aux_cut [OF True, of acc, unfolded len])
      also have "drop 3 (cs @ sep @ suf) = pre' @ sep @ suf"
        by (simp add: pre')
      also have "last (split_aux sep [] (pre' @ sep @ suf)) = suf"
        by (rule IH) (simp add: Cons pre')
      finally show ?thesis using Cons by simp
    next
      case False
      have "split_aux sep acc (c # cs @ sep @ suf) = split_aux sep (c # acc) (cs @ sep @ suf)"
        using False by (rule split_aux_skip)
      moreover have "last (split_aux sep (c # acc) (cs @ sep @ suf)) = suf"
        by (rule IH) (simp add: Cons)
      ultimately show ?thesis using Cons by simp
    qed
  qed
  then show ?case by (simp add: sep_def)
qed

lemma run_number_suffix:
  "\<not> sublist ''-run'' suf \<Longrightarrow> run_number (pre @ ''-run'' @ suf) = py_int suf"
  using split_aux_last_run [of suf "[]" pre] by (simp add: run_number_def py_split_def)

lemma run_number_whole:
  "\<not> sublist ''-run'' f \<Longrightarrow> run_number f = py_int f"
  by (simp add: run_number_def py_split_def split_aux_last_absent)










section \<open>Properties of the run-folder allocation\<close>






lemma get_output_folder_fst:
  "fst (get_output_folder parent name st) =
     os_path_join parent name @ ''-run'' @ str_int (scan_folders (listing st) + 1)"
  by (simp add: get_output_folder_def Let_def)

lemma logs_join: "os_path_join ''./logs'' ''name'' = ''./logs/name''"
  by code_simp

lemma str_int_small: "str_int 1 = ''1''" "str_int 4 = ''4''" "str_int 10 = ''10''"
  by code_simp+

lemma py_int_small: "py_int ''1'' = Some 1" "py_int ''3'' = Some 3" "py_int ''9'' = Some 9" "py_int ''X'' = None"
  by code_simp+

lemma no_run_small: "\<not> sublist ''-run'' ''1''" "\<not> sublist ''-run'' ''3''" "\<not> sublist ''-run'' ''9''" "\<not> sublist ''-run'' ''X''"
  by (auto simp: sublist_Cons_right)





text \<open>
  Claim C9. The scan does not look at the run name. The run number of a directory is
  \<open>int\<close> of the text after its last \<open>-run\<close>, or of the whole name when \<open>-run\<close> does not
  occur; the number appended to the new folder depends on the listing only. So a directory
  \<open>other-run9\<close>, or one named \<open>9\<close>, makes the next folder \<open>name-run10\<close> for every
  \<open>name\<close>.
\<close>

theorem run_scan_ignores_name:
  "(\<not> sublist ''-run'' suf \<longrightarrow> run_number (pre @ ''-run'' @ suf) = py_int suf)
   \<and> (\<not> sublist ''-run'' f \<longrightarrow> run_number f = py_int f)
   \<and> fst (get_output_folder parent name st)
     = os_path_join parent name @ ''-run'' @ str_int (scan_folders (listing st) + 1)
   \<and> fst (get_output_folder parent name (st\<lparr>listing := [(''other-run9'', True)]\<rparr>))
     = os_path_join parent name @ ''-run10''
   \<and> fst (get_output_folder parent name (st\<lparr>listing := [(''9'', True)]\<rparr>))
     = os_path_join parent name @ ''-run10''"
proof -
  have o: "run_number ''other-run9'' = Some 9"
    using run_number_suffix [of "''9''" "''other''"] by (simp add: no_run_small py_int_small)
  have n: "run_number ''9'' = Some 9"
    using run_number_whole [of "''9''"] by (simp add: no_run_small py_int_small)
  have c: "fst (get_output_folder parent name (st\<lparr>listing := [(''other-run9'', True)]\<rparr>))
     = os_path_join parent name @ ''-run10''"
    using o by (simp add: get_output_folder_fst scan_folders_def scan_step_def str_int_small)
  have d: "fst (get_output_folder parent name (st\<lparr>listing := [(''9'', True)]\<rparr>))
     = os_path_join parent name @ ''-run10''"
    using n by (simp add: get_output_folder_fst scan_folders_def scan_step_def str_int_small)
  show ?thesis
    using c d run_number_suffix [of suf pre] run_number_whole [of f]
      get_output_folder_fst [of parent name st]
    by blast
qed

theorem run_scan_ignores_name_witness:
  "\<not> sublist ''-run'' ''9''
   \<and> run_number ''other-run9'' = Some 9
   \<and> run_number ''9'' = Some 9
   \<and> fst (get_output_folder ''./logs'' ''name'' \<lparr>listing = [(''other-run9'', True)], made = []\<rparr>)
     = ''./logs/name-run10''
   \<and> fst (get_output_folder ''./logs'' ''name'' \<lparr>listing = [(''9'', True)], made = []\<rparr>)
     = ''./logs/name-run10''"
  using run_scan_ignores_name
          [of "''9''" "''other''" "''9''" "''./logs''" "''name''" "\<lparr>listing = [], made = []\<rparr>"]
  by (simp add: no_run_small py_int_small logs_join)

section \<open>Properties of the learning-rate schedule\<close>

lemma update_lr_lookup:
  "map_of (AList.update ''lr'' v g) k = (if k = ''lr'' then Some v else map_of g k)"
  by (simp add: update_conv')

lemma adjust_learning_rate_Inr:
  assumes "lr_type a \<in> {''cos'', ''exp'', ''fixed''}"
    and "lr_type a = ''cos'' \<longrightarrow> n_epoch a \<noteq> 0"
  shows "adjust_learning_rate a opt epoch
         = Inr (spec_lr (lr_type a) (lr a) (n_epoch a) epoch,
                opt\<lparr>param_groups :=
                      map (AList.update ''lr'' (spec_lr (lr_type a) (lr a) (n_epoch a) epoch))
                        (param_groups opt)\<rparr>)"
  using assms by (auto simp: adjust_learning_rate_def spec_lr_def Let_def)

text \<open>
  Claim C4. For a supported policy (and a non-zero epoch count under \<open>cos\<close>, where the
  formula divides by it) \<open>adjust_learning_rate\<close> returns the rate of the specification's
  formula for that policy and an optimizer in which every parameter group has this rate
  under \<open>lr\<close>; the number of groups, their other entries and the optimizer state are
  unchanged. The formulas are: \<open>cos\<close> gives \<open>0.5 * lr0 * (1 + cos(\<pi> * epoch / n_epoch))\<close>,
  \<open>exp\<close> gives \<open>lr0 * 0.96^epoch\<close>, \<open>fixed\<close> gives \<open>lr0\<close>.
\<close>

theorem adjust_learning_rate_formula:
  assumes "lr_type a \<in> {''cos'', ''exp'', ''fixed''}"
    and "lr_type a = ''cos'' \<longrightarrow> n_epoch a \<noteq> 0"
  shows "(let v = spec_lr (lr_type a) (lr a) (n_epoch a) epoch;
              opt' = opt\<lparr>param_groups := map (AList.update ''lr'' v) (param_groups opt)\<rparr>
          in adjust_learning_rate a opt epoch = Inr (v, opt')
             \<and> length (param_groups opt') = length (param_groups opt)
             \<and> (\<forall>g \<in> set (param_groups opt'). map_of g ''lr'' = Some v)
             \<and> (\<forall>i < length (param_groups opt). \<forall>k. k \<noteq> ''lr'' \<longrightarrow>
                   map_of (param_groups opt' ! i) k = map_of (param_groups opt ! i) k)
             \<and> opt_state opt' = opt_state opt)
         \<and> spec_lr ''cos'' (lr a) (n_epoch a) epoch
             = 0.5 * lr a * (1 + cos (pi * of_int epoch / of_int (n_epoch a)))
         \<and> spec_lr ''exp'' (lr a) (n_epoch a) epoch = lr a * 0.96 powi epoch
         \<and> spec_lr ''fixed'' (lr a) (n_epoch a) epoch = lr a"
  unfolding Let_def adjust_learning_rate_Inr [OF assms]
  by (auto simp: update_lr_lookup spec_lr_def)

theorem adjust_learning_rate_formula_witness:
  "lr_type default_args \<in> {''cos'', ''exp'', ''fixed''}
   \<and> n_epoch default_args = 150
   \<and> adjust_learning_rate default_args (SGD 0.1 0.9 0) 2 = Inr (0.09216, SGD 0.09216 0.9 0)"
proof -
  have h1: "lr_type default_args \<in> {''cos'', ''exp'', ''fixed''}"
    by (simp add: default_args_def)
  have h2: "lr_type default_args = ''cos'' \<longrightarrow> n_epoch default_args \<noteq> 0"
    by (simp add: default_args_def)
  have h3: "n_epoch default_args = 150"
    by (simp add: default_args_def)
  show ?thesis
    using h1 h3 adjust_learning_rate_formula [OF h1 h2, of 2 "SGD 0.1 0.9 0"]
    by (simp add: Let_def spec_lr_def default_args_def SGD_def power2_eq_square)
qed

text \<open>
  Claim C5, as the claim states it, at base rate 0 under \<open>exp\<close>: the rate at epoch 1 is
  not smaller than the rate at epoch 0 (both are 0).
\<close>

theorem exp_schedule_counterexample:
  "\<not> fst (projr (adjust_learning_rate (default_args\<lparr>lr := 0\<rparr>) (SGD 0 0.9 0) 1))
     < fst (projr (adjust_learning_rate (default_args\<lparr>lr := 0\<rparr>) (SGD 0 0.9 0) 0))"
  by (simp add: adjust_learning_rate_def default_args_def Let_def)

text \<open>
  The order of the \<open>exp\<close> rates does not depend on exact arithmetic: whatever monotone
  rounding \<open>rnd\<close> follows the constant, the power and the product, the rate of the next
  epoch is not larger.
\<close>

lemma exp_rate_rounding_monotone:
  fixes rnd :: "real \<Rightarrow> real"
  assumes "mono rnd" and "rnd 0 = 0" and "rnd 1 = 1" and "0 \<le> lr0"
  shows "rnd (lr0 * rnd (rnd 0.96 ^ Suc n)) \<le> rnd (lr0 * rnd (rnd 0.96 ^ n))"
proof -
  have d0: "0 \<le> rnd 0.96" using monoD [OF assms(1), of 0 "0.96"] assms(2) by simp
  have d1: "rnd 0.96 \<le> 1" using monoD [OF assms(1), of "0.96" 1] assms(3) by simp
  have "rnd 0.96 ^ Suc n \<le> rnd 0.96 ^ n"
    using d0 d1 by (simp add: mult_left_le_one_le)
  then have "rnd (rnd 0.96 ^ Suc n) \<le> rnd (rnd 0.96 ^ n)"
    by (rule monoD [OF assms(1)])
  then have "lr0 * rnd (rnd 0.96 ^ Suc n) \<le> lr0 * rnd (rnd 0.96 ^ n)"
    using assms(4) by (rule mult_left_mono)
  then show ?thesis by (rule monoD [OF assms(1)])
qed

text \<open>
  Claim C5, amended. With a positive epoch count \<open>cos\<close> returns 0 at the epoch equal to the
  epoch count, and the base rate at epoch 0 when the base rate is 0 or at least \<open>2^-1021\<close> in
  magnitude (below that, halving a double rounds). \<open>exp\<close> returns the base rate at epoch 0
  and, when the base rate is not negative, from epoch 0 on a rate at each next epoch that is
  not larger. \<open>fixed\<close> returns the base rate at every epoch.
\<close>

theorem schedule_endpoints:
  "(lr_type a = ''cos'' \<longrightarrow> n_epoch a > 0 \<longrightarrow>
      (\<exists>oN. adjust_learning_rate a opt (n_epoch a) = Inr (0, oN))
      \<and> (lr a = 0 \<or> \<bar>lr a\<bar> \<ge> 1 / 2 ^ 1021 \<longrightarrow>
           (\<exists>o0. adjust_learning_rate a opt 0 = Inr (lr a, o0))))
   \<and> (lr_type a = ''exp'' \<longrightarrow>
      (\<exists>o0. adjust_learning_rate a opt 0 = Inr (lr a, o0))
      \<and> (lr a \<ge> 0 \<longrightarrow> epoch \<ge> 0 \<longrightarrow>
           (\<exists>v v' o1 o2. adjust_learning_rate a opt epoch = Inr (v, o1)
                        \<and> adjust_learning_rate a opt (epoch + 1) = Inr (v', o2) \<and> v' \<le> v)))
   \<and> (lr_type a = ''fixed'' \<longrightarrow>
      (\<exists>o1. adjust_learning_rate a opt epoch = Inr (lr a, o1)))"
proof -
  have step: "(0.96::real) powi (epoch + 1) = 0.96 powi epoch * 0.96"
    by (rule power_int_add_1) simp
  have pos: "(0.96::real) powi epoch \<ge> 0"
    by (rule zero_le_power_int) simp
  have "(0.96::real) powi (epoch + 1) \<le> 0.96 powi epoch"
    using pos unfolding step by simp
  then have dec: "lr a \<ge> 0 \<Longrightarrow> lr a * (0.96::real) powi (epoch + 1) \<le> lr a * 0.96 powi epoch"
    by (rule mult_left_mono)
  show ?thesis
    using dec by (auto simp: adjust_learning_rate_def Let_def)
qed

theorem schedule_endpoints_witness:
  "adjust_learning_rate (default_args\<lparr>lr_type := ''cos''\<rparr>) (SGD 0.1 0.9 0) 150
     = Inr (0, SGD 0 0.9 0)
   \<and> \<bar>lr (default_args\<lparr>lr_type := ''cos''\<rparr>)\<bar> \<ge> 1 / 2 ^ 1021
   \<and> adjust_learning_rate (default_args\<lparr>lr_type := ''cos''\<rparr>) (SGD 0.1 0.9 0) 0
     = Inr (0.1, SGD 0.1 0.9 0)
   \<and> adjust_learning_rate default_args (SGD 0.1 0.9 0) 0 = Inr (0.1, SGD 0.1 0.9 0)
   \<and> lr default_args \<ge> 0
   \<and> adjust_learning_rate default_args (SGD 0.1 0.9 0) 1 = Inr (0.096, SGD 0.096 0.9 0)
   \<and> (0.096::real) \<le> 0.1
   \<and> adjust_learning_rate (default_args\<lparr>lr_type := ''fixed''\<rparr>) (SGD 0.1 0.9 0) 7
     = Inr (0.1, SGD 0.1 0.9 0)"
proof -
  note c = schedule_endpoints [of "default_args\<lparr>lr_type := ''cos''\<rparr>" "SGD 0.1 0.9 0" 0]
  note e = schedule_endpoints [of default_args "SGD 0.1 0.9 0" 0]
  note f = schedule_endpoints [of "default_args\<lparr>lr_type := ''fixed''\<rparr>" "SGD 0.1 0.9 0" 7]
  have n: "\<bar>lr (default_args\<lparr>lr_type := ''cos''\<rparr>)\<bar> \<ge> 1 / 2 ^ 1021"
    by (simp add: default_args_def)
  have c': "adjust_learning_rate (default_args\<lparr>lr_type := ''cos''\<rparr>) (SGD 0.1 0.9 0) 150
              = Inr (0, SGD 0 0.9 0)
            \<and> adjust_learning_rate (default_args\<lparr>lr_type := ''cos''\<rparr>) (SGD 0.1 0.9 0) 0
              = Inr (0.1, SGD 0.1 0.9 0)"
    using c [THEN conjunct1] n
    by (auto simp: default_args_def adjust_learning_rate_def SGD_def Let_def)
  have e': "adjust_learning_rate default_args (SGD 0.1 0.9 0) 0 = Inr (0.1, SGD 0.1 0.9 0)
            \<and> lr default_args \<ge> 0
            \<and> adjust_learning_rate default_args (SGD 0.1 0.9 0) 1 = Inr (0.096, SGD 0.096 0.9 0)"
    using e [THEN conjunct2, THEN conjunct1]
    by (auto simp: default_args_def adjust_learning_rate_def SGD_def Let_def)
  have f': "adjust_learning_rate (default_args\<lparr>lr_type := ''fixed''\<rparr>) (SGD 0.1 0.9 0) 7
              = Inr (0.1, SGD 0.1 0.9 0)"
    using f [THEN conjunct2, THEN conjunct2]
    by (auto simp: default_args_def adjust_learning_rate_def SGD_def Let_def)
  show ?thesis using c' e' f' n by simp
qed

section \<open>Unsupported names\<close>

text \<open>
  Claim C6. A model name other than \<open>vgg16_bn\<close> and \<open>vgg16_bn_x\<close>, the default
  \<open>mobilenet\<close> among them, makes \<open>get_model\<close> raise \<open>NotImplementedError\<close>, and the start of
  the driver ends with that error. A policy other than \<open>cos\<close>, \<open>exp\<close> and \<open>fixed\<close>,
  \<open>step3\<close> among them, makes \<open>adjust_learning_rate\<close> raise \<open>NotImplementedError\<close>; the epoch
  loop ends with that error at its first epoch, and so does a training run of at least one
  epoch. Nothing on the way catches either error.
\<close>

theorem unsupported_names_fatal:
  "(model a \<notin> {''vgg16_bn'', ''vgg16_bn_x''} \<longrightarrow>
      get_model a use_cuda v1 v2 = Inl NotImplementedError
      \<and> start_session a use_cuda v1 v2 fs = Inl NotImplementedError)
   \<and> get_model default_args use_cuda v1 v2 = Inl NotImplementedError
   \<and> (lr_type a \<notin> {''cos'', ''exp'', ''fixed''} \<longrightarrow>
      adjust_learning_rate a opt epoch = Inl NotImplementedError
      \<and> epoch_loop a log_dir train_fn eval_fn (epoch # epochs) s = Inl NotImplementedError
      \<and> (\<not> eval_flag a \<and> n_epoch a > 0 \<longrightarrow>
           run a train_fn eval_fn s st = Inl NotImplementedError))
   \<and> adjust_learning_rate (a\<lparr>lr_type := ''step3''\<rparr>) opt epoch = Inl NotImplementedError"
proof -
  have m: "model a \<notin> {''vgg16_bn'', ''vgg16_bn_x''} \<Longrightarrow>
      get_model a use_cuda v1 v2 = Inl NotImplementedError"
    by (simp add: get_model_def)
  have l: "adjust_learning_rate a opt' e = Inl NotImplementedError"
    if "lr_type a \<notin> {''cos'', ''exp'', ''fixed''}" for opt' e
    using that by (simp add: adjust_learning_rate_def)
  have r: "run a train_fn eval_fn s st = Inl NotImplementedError"
    if "lr_type a \<notin> {''cos'', ''exp'', ''fixed''}" "\<not> eval_flag a" "n_epoch a > 0"
  proof -
    have "epoch_range a s = start_epoch s # [start_epoch s + 1 .. start_epoch s + n_epoch a - 1]"
      using that(3) by (simp add: epoch_range_def upto_rec1)
    then show ?thesis using that l by (simp add: run_def split: prod.splits)
  qed
  show ?thesis
    using m l r
    by (auto simp: start_session_def get_model_def default_args_def adjust_learning_rate_def)
qed

theorem unsupported_names_fatal_witness:
  "model default_args \<notin> {''vgg16_bn'', ''vgg16_bn_x''}
   \<and> get_model default_args False fresh_module fresh_module = Inl NotImplementedError
   \<and> start_session default_args False fresh_module fresh_module Map.empty
       = Inl NotImplementedError
   \<and> lr_type (default_args\<lparr>lr_type := ''step3''\<rparr>) \<notin> {''cos'', ''exp'', ''fixed''}
   \<and> adjust_learning_rate (default_args\<lparr>lr_type := ''step3''\<rparr>) (SGD 0.1 0.9 0) 0
       = Inl NotImplementedError
   \<and> run (default_args\<lparr>lr_type := ''step3''\<rparr>) (\<lambda>e p. p) (\<lambda>e n. 0) example_session
         \<lparr>listing = [], made = []\<rparr>
       = Inl NotImplementedError"
proof -
  have m: "model default_args \<notin> {''vgg16_bn'', ''vgg16_bn_x''}"
    by (simp add: default_args_def)
  have l: "lr_type (default_args\<lparr>lr_type := ''step3''\<rparr>) \<notin> {''cos'', ''exp'', ''fixed''}"
    by simp
  have g: "\<not> eval_flag (default_args\<lparr>lr_type := ''step3''\<rparr>)
           \<and> n_epoch (default_args\<lparr>lr_type := ''step3''\<rparr>) > 0"
    by (simp add: default_args_def)
  note a = unsupported_names_fatal
             [of default_args False fresh_module fresh_module Map.empty "SGD 0.1 0.9 0" 0]
  note b = unsupported_names_fatal
             [of "default_args\<lparr>lr_type := ''step3''\<rparr>" False fresh_module fresh_module
                 Map.empty "SGD 0.1 0.9 0" 0 "[]" "\<lambda>e p. p" "\<lambda>e n. 0" "[]" example_session
                 "\<lparr>listing = [], made = []\<rparr>"]
  show ?thesis using m l g a b by blast
qed

section \<open>Properties of mixup\<close>

lemma randperm_length:
  assumes "distinct index" and "set index = {0..<n}"
  shows "length index = n"
  using assms distinct_card [of index] by simp

lemma map2_by_index:
  "length ys = length xs \<Longrightarrow> map2 f xs ys = map (\<lambda>i. f (xs ! i) (ys ! i)) [0..<length xs]"
  by (rule nth_equalityI) simp_all

text \<open>
  Claim C7. Let \<open>index\<close> be a permutation of the batch positions. If \<open>alpha \<le> 0\<close> then
  \<open>mixup_data\<close> returns \<open>lambda = 1\<close> and the batch unchanged; if \<open>alpha > 0\<close> then, with
  \<open>lambda\<close> the drawn value, sample \<open>i\<close> of the result is
  \<open>lambda * x[i] + (1 - lambda) * x[index[i]]\<close>. In both cases the two label lists are \<open>y\<close>
  and \<open>y[index]\<close>. \<open>mixup_criterion\<close> is
  \<open>lambda * L(pred, y_a) + (1 - lambda) * L(pred, y_b)\<close>.
\<close>

theorem mixup_semantics:
  fixes x :: "'a::real_vector list"
  assumes "distinct index" and "set index = {0..<length x}"
  shows "(alpha \<le> 0 \<longrightarrow>
            mixup_data x y alpha use_cuda beta_sample index = (x, y, map (\<lambda>i. y ! i) index, 1))
         \<and> (alpha > 0 \<longrightarrow>
            mixup_data x y alpha use_cuda beta_sample index
              = (map (\<lambda>i. beta_sample *\<^sub>R (x ! i) + (1 - beta_sample) *\<^sub>R (x ! (index ! i)))
                   [0..<length x],
                 y, map (\<lambda>i. y ! i) index, beta_sample))
         \<and> mixup_criterion criterion pred y_a y_b lam
              = lam * criterion pred y_a + (1 - lam) * criterion pred y_b"
proof -
  have len: "length index = length x"
    using assms by (rule randperm_length)
  have m: "map2 (\<lambda>u v. l *\<^sub>R u + (1 - l) *\<^sub>R v) x (map (\<lambda>i. x ! i) index)
           = map (\<lambda>i. l *\<^sub>R (x ! i) + (1 - l) *\<^sub>R (x ! (index ! i))) [0..<length x]" for l
    using len by (simp add: map2_by_index)
  have one: "map (\<lambda>i. (1::real) *\<^sub>R (x ! i) + (1 - 1) *\<^sub>R (x ! (index ! i))) [0..<length x] = x"
    by (rule nth_equalityI) simp_all
  show ?thesis
    using m one by (simp add: mixup_data_def mixup_criterion_def Let_def)
qed

theorem mixup_semantics_witness:
  "distinct [2, 0, 1::nat] \<and> set [2, 0, 1::nat] = {0..<length [10, 20, 40::real]}
   \<and> mixup_data [10, 20, 40::real] [7, 8, 9::nat] 0 False 0.25 [2, 0, 1]
       = ([10, 20, 40], [7, 8, 9], [9, 7, 8], 1)
   \<and> mixup_data [10, 20, 40::real] [7, 8, 9::nat] 0.086 False 0.25 [2, 0, 1]
       = ([32.5, 12.5, 25], [7, 8, 9], [9, 7, 8], 0.25)"
proof -
  have d: "distinct [2, 0, 1::nat]" by simp
  have s: "set [2, 0, 1::nat] = {0..<length [10, 20, 40::real]}" by auto
  note h = mixup_semantics [OF d s, where y = "[7, 8, 9::nat]" and use_cuda = False
                                    and beta_sample = "0.25"]
  have a: "mixup_data [10, 20, 40::real] [7, 8, 9::nat] 0 False 0.25 [2, 0, 1]
       = ([10, 20, 40], [7, 8, 9], [9, 7, 8], 1)"
    using h [where alpha = 0, THEN conjunct1] by simp
  have "[0..<length [10, 20, 40::real]] = [0, 1, 2]" by (simp add: upt_rec)
  then have b: "mixup_data [10, 20, 40::real] [7, 8, 9::nat] 0.086 False 0.25 [2, 0, 1]
       = ([32.5, 12.5, 25], [7, 8, 9], [9, 7, 8], 0.25)"
    using h [where alpha = "0.086", THEN conjunct2, THEN conjunct1] by simp
  show ?thesis using d s a b by blast
qed

section \<open>Properties of checkpoints\<close>

lemma prefix_across:
  assumes "prefix p (d @ t)" and "t \<noteq> []" and "hd t \<notin> set p"
  shows "prefix p d"
proof -
  from assms(1) consider "prefix p d" | us where "p = d @ us" "prefix us t"
    by (auto simp: prefix_append)
  then show ?thesis
  proof cases
    case 1
    then show ?thesis .
  next
    case 2
    show ?thesis
    proof (cases us)
      case Nil
      then show ?thesis using 2 by simp
    next
      case (Cons u us')
      then have "hd t = u" using 2(2) assms(2) by (cases t) auto
      then have "hd t \<in> set p" using 2(1) Cons by simp
      then show ?thesis using assms(3) by simp
    qed
  qed
qed

lemma replace_aux_absent:
  assumes "\<not> sublist old d" and "t \<noteq> []" and "hd t \<notin> set old"
  shows "replace_aux old new (d @ t) = d @ replace_aux old new t"
  using assms(1)
proof (induction d)
  case Nil
  then show ?case by simp
next
  case (Cons c cs)
  have "\<not> prefix old (c # cs)"
    using Cons.prems prefix_imp_sublist by blast
  then have np: "\<not> prefix old (c # cs @ t)"
    using prefix_across [of old "c # cs" t] assms(2,3) by auto
  have "\<not> sublist old cs"
    using Cons.prems by (auto simp: sublist_Cons_right)
  then show ?case using Cons.IH np by simp
qed

lemma replace_tail:
  "replace_aux ''.pth.tar'' ''.best.pth.tar'' ''/ckpt.pth.tar'' = ''/ckpt.best.pth.tar''"
  "replace_aux ''.pth.tar'' ''.best.pth.tar'' ''ckpt.pth.tar'' = ''ckpt.best.pth.tar''"
  by code_simp+

lemma best_path:
  assumes "\<not> sublist ''.pth.tar'' d"
  shows "py_replace (os_path_join d ''ckpt.pth.tar'') ''.pth.tar'' ''.best.pth.tar''
         = os_path_join d ''ckpt.best.pth.tar''"
proof -
  have r1: "replace_aux ''.pth.tar'' ''.best.pth.tar'' (d @ ''/ckpt.pth.tar'')
            = d @ ''/ckpt.best.pth.tar''"
    using replace_aux_absent [OF assms, of "''/ckpt.pth.tar''" "''.best.pth.tar''"]
    by (simp add: replace_tail)
  have r2: "replace_aux ''.pth.tar'' ''.best.pth.tar'' (d @ ''ckpt.pth.tar'')
            = d @ ''ckpt.best.pth.tar''"
    using replace_aux_absent [OF assms, of "''ckpt.pth.tar''" "''.best.pth.tar''"]
    by (simp add: replace_tail)
  show ?thesis
    using r1 r2 by (simp add: py_replace_def os_path_join_def)
qed

lemma latest_neq_best: "os_path_join d ''ckpt.best.pth.tar'' \<noteq> os_path_join d ''ckpt.pth.tar''"
  by (simp add: os_path_join_def)
lemma test_best_acc:
  "best_acc (test a d e top1 True s) = (if top1 > best_acc s then top1 else best_acc s)"
  by (simp add: test_def Let_def)

lemma test_best_acc_mono: "best_acc s \<le> best_acc (test a d e top1 save s)"
  by (simp add: test_def Let_def)

lemma checkpoint_record_best_acc:
  "checkpoint_record a e top1 (s\<lparr>best_acc := b\<rparr>) = checkpoint_record a e top1 s"
  by (simp add: checkpoint_record_def split: net.splits)

lemma test_files:
  "files (test a d e top1 True s)
   = save_checkpoint (checkpoint_record a e top1 s) (top1 > best_acc s) d (files s)"
  by (simp add: test_def Let_def checkpoint_record_best_acc)

lemma save_checkpoint_latest:
  "save_checkpoint r b d fs (os_path_join d ''ckpt.pth.tar'') = Some r"
  by (simp add: save_checkpoint_def Let_def)

lemma save_checkpoint_best:
  assumes "\<not> sublist ''.pth.tar'' d"
  shows "save_checkpoint r b d fs (os_path_join d ''ckpt.best.pth.tar'')
         = (if b then Some r else fs (os_path_join d ''ckpt.best.pth.tar''))"
  using latest_neq_best [of d] by (simp add: save_checkpoint_def Let_def best_path [OF assms])

lemma save_checkpoint_other:
  assumes "\<not> sublist ''.pth.tar'' d"
    and "p \<noteq> os_path_join d ''ckpt.pth.tar''" and "p \<noteq> os_path_join d ''ckpt.best.pth.tar''"
  shows "save_checkpoint r b d fs p = fs p"
  using assms(2,3) by (simp add: save_checkpoint_def Let_def best_path [OF assms(1)])

lemma epoch_loop_best_acc_mono:
  "epoch_loop a d train_fn eval_fn epochs s = Inr s' \<Longrightarrow> best_acc s \<le> best_acc s'"
proof (induction epochs arbitrary: s)
  case Nil
  then show ?case by simp
next
  case (Cons e es)
  from Cons.prems obtain v opt where adj: "adjust_learning_rate a (optimizer s) e = Inr (v, opt)"
    by (auto split: sum.splits)
  obtain n' opt' where tr: "train_fn e (net s, opt) = (n', opt')"
    by (cases "train_fn e (net s, opt)")
  define s1 where "s1 = s\<lparr>net := n', optimizer := opt'\<rparr>"
  define s2 where "s2 = test a d e (eval_fn e n') True s1"
  have "epoch_loop a d train_fn eval_fn es s2 = Inr s'"
    using Cons.prems adj tr by (simp add: s1_def s2_def)
  then have "best_acc s2 \<le> best_acc s'" by (rule Cons.IH)
  moreover have "best_acc s1 \<le> best_acc s2"
    unfolding s2_def by (rule test_best_acc_mono)
  moreover have "best_acc s1 = best_acc s" by (simp add: s1_def)
  ultimately show ?case by simp
qed

lemma epoch_loop_total:
  assumes "lr_type a \<in> {''cos'', ''exp'', ''fixed''}"
    and "lr_type a = ''cos'' \<longrightarrow> n_epoch a \<noteq> 0"
  shows "\<exists>s'. epoch_loop a d train_fn eval_fn epochs s = Inr s'"
proof (induction epochs arbitrary: s)
  case Nil
  then show ?case by simp
next
  case (Cons e es)
  have "\<exists>v opt. adjust_learning_rate a (optimizer s) e = Inr (v, opt)"
    using adjust_learning_rate_Inr [OF assms] by blast
  then obtain v opt where adj: "adjust_learning_rate a (optimizer s) e = Inr (v, opt)"
    by blast
  obtain n' opt' where tr: "train_fn e (net s, opt) = (n', opt')"
    by (cases "train_fn e (net s, opt)")
  show ?case using Cons.IH adj tr by simp
qed

text \<open>
  Claim C3. A validation epoch of the training loop (\<open>test\<close> with \<open>save\<close> set, as the
  loop calls it) leaves \<open>best_acc\<close> at the larger of its old value and the epoch's top-1
  average; it changes \<open>best_acc\<close> exactly when the average is strictly greater, and exactly
  then \<open>save_checkpoint\<close> is called with \<open>is_best\<close> set, which copies the record to
  \<open>ckpt.best.pth.tar\<close> in the log folder (the folder name not containing \<open>.pth.tar\<close>);
  otherwise that file is left as it was. \<open>best_acc\<close> never decreases, over one call of
  \<open>test\<close> with either value of \<open>save\<close> and over any run of the epoch loop, and the loop
  does return under \<open>exp\<close> and \<open>fixed\<close>. Without \<open>save\<close> (the evaluation-only run)
  \<open>test\<close> changes nothing.
\<close>

theorem best_acc_invariant:
  "best_acc (test a d e top1 True s) = (if top1 > best_acc s then top1 else best_acc s)
   \<and> best_acc s \<le> best_acc (test a d e top1 save s)
   \<and> test a d e top1 False s = s
   \<and> (best_acc (test a d e top1 True s) \<noteq> best_acc s \<longleftrightarrow> top1 > best_acc s)
   \<and> files (test a d e top1 True s)
       = save_checkpoint (checkpoint_record a e top1 s) (top1 > best_acc s) d (files s)
   \<and> files (test a d e top1 True s) (os_path_join d ''ckpt.pth.tar'')
       = Some (checkpoint_record a e top1 s)
   \<and> (\<not> sublist ''.pth.tar'' d \<longrightarrow>
        files (test a d e top1 True s) (os_path_join d ''ckpt.best.pth.tar'')
        = (if top1 > best_acc s then Some (checkpoint_record a e top1 s)
           else files s (os_path_join d ''ckpt.best.pth.tar'')))
   \<and> (epoch_loop a d train_fn eval_fn epochs s = Inr s' \<longrightarrow> best_acc s \<le> best_acc s')
   \<and> (lr_type a \<in> {''exp'', ''fixed''} \<longrightarrow>
        (\<exists>s''. epoch_loop a d train_fn eval_fn epochs s = Inr s''))"
proof -
  have b: "best_acc (test a d e top1 True s) = (if top1 > best_acc s then top1 else best_acc s)"
    by (rule test_best_acc)
  have f: "files (test a d e top1 True s)
       = save_checkpoint (checkpoint_record a e top1 s) (top1 > best_acc s) d (files s)"
    by (rule test_files)
  have t: "lr_type a \<in> {''exp'', ''fixed''} \<Longrightarrow>
           \<exists>s''. epoch_loop a d train_fn eval_fn epochs s = Inr s''"
    using epoch_loop_total [of a d train_fn eval_fn epochs s] by auto
  have n: "test a d e top1 False s = s"
    by (simp add: test_def)
  show ?thesis
    using b t n epoch_loop_best_acc_mono [of a d train_fn eval_fn epochs s s']
      test_best_acc_mono [of s a d e top1 save]
    by (auto simp: f save_checkpoint_latest save_checkpoint_best)
qed

lemma logs_paths:
  "os_path_join ''logs'' ''ckpt.pth.tar'' = ''logs/ckpt.pth.tar''"
  "os_path_join ''logs'' ''ckpt.best.pth.tar'' = ''logs/ckpt.best.pth.tar''"
  by code_simp+

lemma logs_clean: "\<not> sublist ''.pth.tar'' ''logs''"
  by (auto simp: sublist_Cons_right)

lemma example_get_model: "get_model example_args False fresh_module fresh_module = Inr fresh_module"
  by (simp add: get_model_def example_args_def default_args_def)

lemma example_signature: "signature fresh_module = signature (net_module (net example_session))"
  by (simp add: signature_def fresh_module_def trained_module_def example_session_def)

lemma example_distinct: "distinct (map fst (params (net_module (net example_session))))"
  by (simp add: trained_module_def example_session_def)

lemma example_ckpt_path: "ckpt_path example_args = Some (os_path_join ''logs'' ''ckpt.pth.tar'')"
  by (simp add: example_args_def logs_paths)


lemma epoch_loop_example:
  "epoch_loop example_args ''logs'' (\<lambda>e p. p) (\<lambda>e n. 60) [0] example_session
   = Inr (test example_args ''logs'' 0 60 True example_session)"
proof -
  have "adjust_learning_rate example_args (optimizer example_session) 0
        = Inr (0.1, optimizer example_session)"
    by (simp add: adjust_learning_rate_def example_args_def default_args_def Let_def
          example_session_def SGD_def)
  moreover have "example_session\<lparr>net := net example_session,
                   optimizer := optimizer example_session\<rparr> = example_session"
    by simp
  ultimately show ?thesis by simp
qed

theorem best_acc_invariant_witness:
  "best_acc (test example_args ''logs'' 3 60 True example_session) = 60
   \<and> best_acc (test example_args ''logs'' 3 40 True example_session) = 50
   \<and> \<not> sublist ''.pth.tar'' ''logs''
   \<and> files (test example_args ''logs'' 3 60 True example_session) ''logs/ckpt.best.pth.tar''
       = Some (checkpoint_record example_args 3 60 example_session)
   \<and> files (test example_args ''logs'' 3 40 True example_session) ''logs/ckpt.best.pth.tar''
       = None
   \<and> epoch_loop example_args ''logs'' (\<lambda>e p. p) (\<lambda>e n. 60) [0] example_session
       = Inr (test example_args ''logs'' 0 60 True example_session)
   \<and> best_acc example_session
       \<le> best_acc (test example_args ''logs'' 0 60 True example_session)"
proof -
  note h60 = best_acc_invariant [where a = example_args and d = "''logs''" and e = 3
                                   and ?top1.0 = 60 and s = example_session]
  note h40 = best_acc_invariant [where a = example_args and d = "''logs''" and e = 3
                                   and ?top1.0 = 40 and s = example_session]
  note loop = best_acc_invariant
                [where a = example_args and d = "''logs''" and s = example_session
                   and train_fn = "\<lambda>e p. p" and eval_fn = "\<lambda>e n. 60" and epochs = "[0]"
                   and s' = "test example_args ''logs'' 0 60 True example_session"]
  have b: "best_acc example_session = 50" "files example_session = Map.empty"
    by (simp_all add: example_session_def)
  have c1: "best_acc (test example_args ''logs'' 3 60 True example_session) = 60"
    using h60 [THEN conjunct1] b by simp
  have c2: "best_acc (test example_args ''logs'' 3 40 True example_session) = 50"
    using h40 [THEN conjunct1] b by simp
  have c3: "files (test example_args ''logs'' 3 60 True example_session) ''logs/ckpt.best.pth.tar''
       = Some (checkpoint_record example_args 3 60 example_session)"
    using h60 [THEN conjunct2, THEN conjunct2, THEN conjunct2, THEN conjunct2, THEN conjunct2,
               THEN conjunct2, THEN conjunct1] logs_clean b
    by (simp add: logs_paths)
  have c4: "files (test example_args ''logs'' 3 40 True example_session) ''logs/ckpt.best.pth.tar''
       = None"
    using h40 [THEN conjunct2, THEN conjunct2, THEN conjunct2, THEN conjunct2, THEN conjunct2,
               THEN conjunct2, THEN conjunct1] logs_clean b
    by (simp add: logs_paths)
  have c5: "best_acc example_session
       \<le> best_acc (test example_args ''logs'' 0 60 True example_session)"
    using loop [THEN conjunct2, THEN conjunct2, THEN conjunct2, THEN conjunct2, THEN conjunct2,
                THEN conjunct2, THEN conjunct2, THEN conjunct1] epoch_loop_example
    by blast
  show ?thesis using c1 c2 c3 c4 c5 logs_clean epoch_loop_example by blast
qed

section \<open>Properties of the resume branch\<close>

lemma state_dict_lookup:
  assumes "distinct (map fst ps)" and "i < length ps"
  shows "map_of (map (\<lambda>(k, t). (k, PTensor t)) ps) (fst (ps ! i)) = Some (PTensor (snd (ps ! i)))"
proof -
  let ?d = "map (\<lambda>(k, t). (k, PTensor t)) ps"
  have "map fst ?d = map fst ps" by (simp add: case_prod_unfold comp_def)
  then have "distinct (map fst ?d)" using assms(1) by (simp only:)
  moreover have "(fst (ps ! i), PTensor (snd (ps ! i))) \<in> set ?d"
    using assms(2) by (force simp: set_conv_nth case_prod_unfold)
  ultimately show ?thesis by (rule map_of_is_SomeI)
qed

lemma loadable_same_signature:
  assumes sig: "map (\<lambda>p. (fst p, shape (snd p))) qs = map (\<lambda>p. (fst p, shape (snd p))) ps"
    and dist: "distinct (map fst ps)" and i: "i < length ps"
  shows "loadable (map (\<lambda>(k, t). (k, PTensor t)) ps) (qs ! i) = Some (snd (ps ! i))"
proof -
  have len: "length qs = length ps" using sig by (rule map_eq_imp_length_eq)
  have "(map (\<lambda>p. (fst p, shape (snd p))) qs) ! i = (map (\<lambda>p. (fst p, shape (snd p))) ps) ! i"
    using sig by simp
  then have eq: "fst (qs ! i) = fst (ps ! i)" "shape (snd (qs ! i)) = shape (snd (ps ! i))"
    using i len by simp_all
  show ?thesis
    using state_dict_lookup [OF dist i] eq by (simp add: loadable_def)
qed

lemma load_state_dict_roundtrip:
  assumes sig: "signature fresh = signature m" and dist: "distinct (map fst (params m))"
  shows "load_state_dict fresh (state_dict (Module m)) = Inr (fresh\<lparr>params := params m\<rparr>)"
proof -
  let ?ps = "params m" and ?qs = "params fresh"
  let ?d = "map (\<lambda>(k, t). (k, PTensor t)) ?ps"
  have sig': "map (\<lambda>p. (fst p, shape (snd p))) ?qs = map (\<lambda>p. (fst p, shape (snd p))) ?ps"
    using sig by (simp add: signature_def)
  have len: "length ?qs = length ?ps" using sig' by (rule map_eq_imp_length_eq)
  have keys: "map fst ?qs = map fst ?ps"
  proof -
    have "map fst (map (\<lambda>p. (fst p, shape (snd p))) ?qs)
          = map fst (map (\<lambda>p. (fst p, shape (snd p))) ?ps)"
      using sig' by simp
    then show ?thesis by (simp add: comp_def)
  qed
  have ld: "loadable ?d (?qs ! i) = Some (snd (?ps ! i))" if "i < length ?ps" for i
    using loadable_same_signature [OF sig' dist that] .
  have c1: "list_all (\<lambda>k. k \<in> set (map fst ?qs)) (map fst ?d)"
    by (simp add: keys list_all_iff case_prod_unfold)
  have c2: "list_all (\<lambda>p. loadable ?d p \<noteq> None) ?qs"
    unfolding list_all_length using ld len by simp
  have c3: "map (\<lambda>p. (fst p, the (loadable ?d p))) ?qs = ?ps"
  proof (rule nth_equalityI)
    show "length (map (\<lambda>p. (fst p, the (loadable ?d p))) ?qs) = length ?ps"
      using len by simp
  next
    fix i assume "i < length (map (\<lambda>p. (fst p, the (loadable ?d p))) ?qs)"
    then have i: "i < length ?ps" using len by simp
    have "fst (?qs ! i) = fst (?ps ! i)"
      using keys i len by (metis nth_map)
    then show "map (\<lambda>p. (fst p, the (loadable ?d p))) ?qs ! i = ?ps ! i"
      using i len ld [OF i] by (simp add: prod_eq_iff)
  qed
  show ?thesis
    using c1 c2 c3 by (simp add: load_state_dict_def)
qed

lemma record_state_dict:
  "map_of (case checkpoint_record a e top1 s of PDict c \<Rightarrow> c | _ \<Rightarrow> []) ''state_dict''
   = Some (state_dict (Module (net_module (net s))))"
  by (cases "net s") (simp_all add: checkpoint_record_def)

lemma checkpoint_record_eq:
  "checkpoint_record a e top1 s =
     PDict [(''epoch'', PInt e), (''model'', PStr (model a)), (''dataset'', PStr (dataset a)),
            (''state_dict'', state_dict (Module (net_module (net s)))),
            (''acc'', PFloat top1), (''optimizer'', optimizer_state_dict (optimizer s))]"
  by (cases "net s") (simp_all add: checkpoint_record_def)

lemma resume_from_record:
  assumes "ckpt_path a = Some p" and "fs p = Some (checkpoint_record a' e top1 s)"
  shows "resume a fs m = load_state_dict m (state_dict (Module (net_module (net s))))"
  using assms by (simp add: resume_def checkpoint_record_eq)


lemma resume_saved_checkpoint:
  assumes "signature fresh = signature (net_module (net s))"
    and "distinct (map fst (params (net_module (net s))))"
    and "ckpt_path a = Some (os_path_join d ''ckpt.pth.tar'')"
  shows "resume a (files (test a0 d e top1 True s)) fresh
         = Inr (fresh\<lparr>params := params (net_module (net s))\<rparr>)"
proof -
  let ?fs = "files (test a0 d e top1 True s)"
  have "?fs (os_path_join d ''ckpt.pth.tar'') = Some (checkpoint_record a0 e top1 s)"
    by (simp add: test_files save_checkpoint_latest)
  then have "resume a ?fs fresh
             = load_state_dict fresh (state_dict (Module (net_module (net s))))"
    using assms(3) by (rule resume_from_record [rotated])
  then show ?thesis
    using load_state_dict_roundtrip [OF assms(1,2)] by simp
qed

lemma start_session_resumed:
  assumes "get_model a use_cuda v1 v2 = Inr fresh" and "resume a fs fresh = Inr m'"
  shows "\<exists>s'. start_session a use_cuda v1 v2 fs = Inr s'
              \<and> params (net_module (net s')) = params m' \<and> best_acc s' = 0"
  using assms by (simp add: start_session_def Let_def)

text \<open>
  Claim C1, as the claim states it. A validation epoch with top-1 average 60 makes the best
  accuracy 60 and records 60 in the checkpoint; the process resumed from that checkpoint
  starts, and its best accuracy is not 60.
\<close>

theorem resume_best_acc_counterexample:
  "\<not> isl (start_session example_args False fresh_module fresh_module
             (files (test example_args ''logs'' 1 60 True example_session)))
   \<and> ckpt_field (files (test example_args ''logs'' 1 60 True example_session)
                  ''logs/ckpt.pth.tar'') ''acc'' = Some (PFloat 60)
   \<and> best_acc (test example_args ''logs'' 1 60 True example_session) = 60
   \<and> best_acc (projr (start_session example_args False fresh_module fresh_module
                        (files (test example_args ''logs'' 1 60 True example_session))))
       \<noteq> 60"
proof -
  obtain s' where s': "start_session example_args False fresh_module fresh_module
               (files (test example_args ''logs'' 1 60 True example_session)) = Inr s'"
      "best_acc s' = 0"
    using start_session_resumed
            [OF example_get_model
                resume_saved_checkpoint [OF example_signature example_distinct example_ckpt_path,
                                         of example_args 1 60]]
    by blast
  have f: "files (test example_args ''logs'' 1 60 True example_session) ''logs/ckpt.pth.tar''
           = Some (checkpoint_record example_args 1 60 example_session)"
    using save_checkpoint_latest [of _ _ "''logs''"] by (simp add: test_files logs_paths)
  have b: "best_acc (test example_args ''logs'' 1 60 True example_session) = 60"
    by (simp add: test_best_acc example_session_def)
  show ?thesis using s' b by (simp add: f ckpt_field_def checkpoint_record_eq)
qed

text \<open>
  Claim C1, amended. Let a validation epoch save its checkpoint into a folder, and let a
  process be started with \<open>--ckpt_path\<close> naming that \<open>ckpt.pth.tar\<close> and a supported model
  whose fresh module has the parameter names and shapes of the saved network, the names
  distinct. Then the start succeeds and the network has exactly the saved weights; the best
  accuracy of the resumed process is 0, whatever accuracy the checkpoint records.
\<close>

theorem resume_roundtrip:
  assumes "get_model a use_cuda v1 v2 = Inr fresh"
    and "signature fresh = signature (net_module (net s))"
    and "distinct (map fst (params (net_module (net s))))"
    and "ckpt_path a = Some (os_path_join d ''ckpt.pth.tar'')"
  shows "\<exists>s'. start_session a use_cuda v1 v2 (files (test a0 d e top1 True s)) = Inr s'
              \<and> params (net_module (net s')) = params (net_module (net s))
              \<and> best_acc s' = 0"
proof -
  let ?fs = "files (test a0 d e top1 True s)"
  have loaded: "resume a ?fs fresh = Inr (fresh\<lparr>params := params (net_module (net s))\<rparr>)"
    using assms(2-4) by (rule resume_saved_checkpoint)
  obtain s' where s': "start_session a use_cuda v1 v2 ?fs = Inr s'"
      and w: "params (net_module (net s')) = params (fresh\<lparr>params := params (net_module (net s))\<rparr>)"
      and b: "best_acc s' = 0"
    using start_session_resumed [OF assms(1) loaded] by blast
  have "params (net_module (net s')) = params (net_module (net s))"
    using w by simp
  then show ?thesis using s' b by blast
qed

theorem resume_roundtrip_witness:
  "get_model example_args False fresh_module fresh_module = Inr fresh_module
   \<and> signature fresh_module = signature (net_module (net example_session))
   \<and> distinct (map fst (params (net_module (net example_session))))
   \<and> ckpt_path example_args = Some (os_path_join ''logs'' ''ckpt.pth.tar'')
   \<and> (\<exists>s'. start_session example_args False fresh_module fresh_module
               (files (test example_args ''logs'' 1 60 True example_session)) = Inr s'
            \<and> params (net_module (net s')) = [(''w'', \<lparr>shape = [2], vals = [3, 5]\<rparr>)]
            \<and> best_acc s' = 0)"
  using resume_roundtrip [OF example_get_model example_signature example_distinct
                             example_ckpt_path, of example_args 1 60]
    example_get_model example_signature example_distinct example_ckpt_path
  by (simp add: example_session_def trained_module_def)


section \<open>What a checkpoint records\<close>

lemma test_latest_file:
  "files (test a d e top1 True s) (os_path_join d ''ckpt.pth.tar'')
   = Some (checkpoint_record a e top1 s)"
  by (simp add: test_files save_checkpoint_latest)

lemma test_best_file:
  "\<not> sublist ''.pth.tar'' d \<Longrightarrow>
   files (test a d e top1 True s) (os_path_join d ''ckpt.best.pth.tar'')
   = (if top1 > best_acc s then Some (checkpoint_record a e top1 s)
      else files s (os_path_join d ''ckpt.best.pth.tar''))"
  by (simp add: test_files save_checkpoint_best)

lemma record_acc: "ckpt_field (Some (checkpoint_record a e top1 s)) ''acc'' = Some (PFloat top1)"
  by (simp add: ckpt_field_def checkpoint_record_eq)

text \<open>
  Claim C2, as the claim states it. With best accuracy 50 so far, a validation epoch with
  top-1 average 40 writes a record whose accuracy field is not the best accuracy so far.
\<close>

theorem checkpoint_acc_counterexample:
  "ckpt_field (files (test example_args ''logs'' 1 40 True example_session) ''logs/ckpt.pth.tar'')
     ''acc''
   \<noteq> Some (PFloat (best_acc (test example_args ''logs'' 1 40 True example_session)))"
proof -
  have "files (test example_args ''logs'' 1 40 True example_session) ''logs/ckpt.pth.tar''
        = Some (checkpoint_record example_args 1 40 example_session)"
    using test_latest_file [of example_args "''logs''" 1 40 example_session]
    by (simp add: logs_paths)
  moreover have "best_acc (test example_args ''logs'' 1 40 True example_session) = 50"
    by (simp add: test_best_acc example_session_def)
  ultimately show ?thesis by (simp add: record_acc)
qed

text \<open>
  Claim C2, amended. The record a validation epoch writes to \<open>ckpt.pth.tar\<close> holds the epoch
  index, the model name, the dataset name, the weights of the (unwrapped) network, an
  accuracy and the optimizer state. The accuracy field is that epoch's top-1 average; it
  equals the best accuracy so far exactly when the average is not below the previous best,
  and so it does in every record the epoch copies to \<open>ckpt.best.pth.tar\<close>.
\<close>

theorem checkpoint_record_contents:
  "files (test a d e top1 True s) (os_path_join d ''ckpt.pth.tar'')
     = Some (PDict [(''epoch'', PInt e), (''model'', PStr (model a)),
                    (''dataset'', PStr (dataset a)),
                    (''state_dict'', state_dict (Module (net_module (net s)))),
                    (''acc'', PFloat top1),
                    (''optimizer'', optimizer_state_dict (optimizer s))])
   \<and> ckpt_field (files (test a d e top1 True s) (os_path_join d ''ckpt.pth.tar'')) ''acc''
     = Some (PFloat top1)
   \<and> (ckpt_field (files (test a d e top1 True s) (os_path_join d ''ckpt.pth.tar'')) ''acc''
        = Some (PFloat (best_acc (test a d e top1 True s)))
      \<longleftrightarrow> top1 \<ge> best_acc s)
   \<and> (\<not> sublist ''.pth.tar'' d \<longrightarrow> top1 > best_acc s \<longrightarrow>
        ckpt_field (files (test a d e top1 True s) (os_path_join d ''ckpt.best.pth.tar'')) ''acc''
        = Some (PFloat (best_acc (test a d e top1 True s))))"
proof -
  let ?s' = "test a d e top1 True s"
  let ?latest = "files ?s' (os_path_join d ''ckpt.pth.tar'')"
  have l: "?latest = Some (checkpoint_record a e top1 s)"
    by (rule test_latest_file)
  have c1: "?latest
     = Some (PDict [(''epoch'', PInt e), (''model'', PStr (model a)),
                    (''dataset'', PStr (dataset a)),
                    (''state_dict'', state_dict (Module (net_module (net s)))),
                    (''acc'', PFloat top1),
                    (''optimizer'', optimizer_state_dict (optimizer s))])"
    unfolding l by (simp only: checkpoint_record_eq)
  have c2: "ckpt_field ?latest ''acc'' = Some (PFloat top1)"
    unfolding l by (rule record_acc)
  have c3: "ckpt_field ?latest ''acc'' = Some (PFloat (best_acc ?s')) \<longleftrightarrow> top1 \<ge> best_acc s"
    unfolding c2 by (auto simp: test_best_acc)
  have c4: "ckpt_field (files ?s' (os_path_join d ''ckpt.best.pth.tar'')) ''acc''
            = Some (PFloat (best_acc ?s'))"
    if "\<not> sublist ''.pth.tar'' d" "top1 > best_acc s"
    using that by (simp add: test_best_file record_acc test_best_acc)
  show ?thesis using c1 c2 c3 c4 by blast
qed

theorem checkpoint_record_contents_witness:
  "ckpt_field (files (test example_args ''logs'' 1 40 True example_session) ''logs/ckpt.pth.tar'')
     ''acc'' = Some (PFloat 40)
   \<and> best_acc (test example_args ''logs'' 1 40 True example_session) = 50
   \<and> \<not> sublist ''.pth.tar'' ''logs''
   \<and> ckpt_field (files (test example_args ''logs'' 2 60 True example_session)
                  ''logs/ckpt.best.pth.tar'') ''acc'' = Some (PFloat 60)
   \<and> best_acc (test example_args ''logs'' 2 60 True example_session) = 60"
proof -
  note h40 = checkpoint_record_contents [of example_args "''logs''" 1 40 example_session]
  note h60 = checkpoint_record_contents [of example_args "''logs''" 2 60 example_session]
  have b: "best_acc example_session = 50" by (simp add: example_session_def)
  have a: "ckpt_field (files (test example_args ''logs'' 1 40 True example_session)
                         ''logs/ckpt.pth.tar'') ''acc'' = Some (PFloat 40)"
    using h40 [THEN conjunct2, THEN conjunct1] by (simp add: logs_paths)
  have c: "best_acc (test example_args ''logs'' 1 40 True example_session) = 50"
    by (simp add: test_best_acc b)
  have e: "best_acc (test example_args ''logs'' 2 60 True example_session) = 60"
    by (simp add: test_best_acc b)
  have d: "ckpt_field (files (test example_args ''logs'' 2 60 True example_session)
                  ''logs/ckpt.best.pth.tar'') ''acc'' = Some (PFloat 60)"
    using h60 [THEN conjunct2, THEN conjunct2, THEN conjunct2] logs_clean b e
    by (simp add: logs_paths)
  show ?thesis using a c d e logs_clean by blast
qed


section \<open>What a resumed session starts from\<close>

lemma start_session_fields:
  assumes "start_session a use_cuda v1 v2 fs = Inr s"
  shows "best_acc s = 0 \<and> start_epoch s = 0 \<and> optimizer s = SGD (lr a) 0.9 (wd a)
         \<and> files s = fs"
  using assms by (auto simp: start_session_def Let_def split: sum.splits if_splits)

lemma start_session_net:
  assumes "start_session a use_cuda v1 v2 fs = Inr s"
  shows "\<exists>m m'. get_model a use_cuda v1 v2 = Inr m \<and> resume a fs m = Inr m'
               \<and> params (net_module (net s)) = params m'"
  using assms by (auto simp: start_session_def Let_def split: sum.splits if_splits)

lemma resume_dict:
  assumes "ckpt_path a = Some p" and "fs p = Some (PDict c)"
  shows "resume a fs m
         = load_state_dict m (case map_of c ''state_dict'' of Some sd \<Rightarrow> sd | None \<Rightarrow> PDict c)"
  using assms by (simp add: resume_def Let_def)

text \<open>
  Claim C10. A session that starts has best accuracy 0, start epoch 0 and a new SGD optimizer
  built from the command line, so its epoch loop runs over \<open>0 .. n_epoch - 1\<close>; its weights
  are what the resume branch returned. With a checkpoint path, the resume branch loads the
  entry \<open>state_dict\<close> of the stored dict when there is one and the stored dict itself
  otherwise, and nothing else: two stored dicts with the same \<open>state_dict\<close> entry give the
  same result.
\<close>

theorem resume_loads_weights_only:
  "(start_session a use_cuda v1 v2 fs = Inr s \<longrightarrow>
      best_acc s = 0 \<and> start_epoch s = 0 \<and> optimizer s = SGD (lr a) 0.9 (wd a)
      \<and> epoch_range a s = [0 .. n_epoch a - 1]
      \<and> (\<exists>m m'. get_model a use_cuda v1 v2 = Inr m \<and> resume a fs m = Inr m'
                 \<and> params (net_module (net s)) = params m'))
   \<and> (ckpt_path a = Some p \<and> fs p = Some (PDict c) \<and> map_of c ''state_dict'' = Some sd \<longrightarrow>
        resume a fs m = load_state_dict m sd)
   \<and> (ckpt_path a = Some p \<and> fs p = Some (PDict c) \<and> map_of c ''state_dict'' = None \<longrightarrow>
        resume a fs m = load_state_dict m (PDict c))
   \<and> (ckpt_path a = Some p \<and> fs p = Some (PDict c) \<and> fs' p = Some (PDict c')
        \<and> map_of c ''state_dict'' = Some sd \<and> map_of c' ''state_dict'' = Some sd \<longrightarrow>
        resume a fs m = resume a fs' m)"
proof -
  have r: "epoch_range a s = [0 .. n_epoch a - 1]" if "start_epoch s = 0"
    using that by (simp add: epoch_range_def)
  show ?thesis
    using start_session_fields [of a use_cuda v1 v2 fs s]
      start_session_net [of a use_cuda v1 v2 fs s] r
      resume_dict [of a p fs c m] resume_dict [of a p fs' c' m]
    by auto
qed

lemma load_example:
  "load_state_dict fresh_module (state_dict (Module trained_module)) = Inr trained_module"
  by (simp add: load_state_dict_def fresh_module_def trained_module_def loadable_def)

theorem resume_loads_weights_only_witness:
  "start_session example_args False fresh_module fresh_module
      [''logs/ckpt.pth.tar'' \<mapsto> stored_checkpoint]
     = Inr \<lparr>best_acc = 0, start_epoch = 0, net = Module trained_module,
            optimizer = SGD 0.1 0.9 (4 / 100000),
            files = [''logs/ckpt.pth.tar'' \<mapsto> stored_checkpoint]\<rparr>
   \<and> epoch_range example_args
        \<lparr>best_acc = 0, start_epoch = 0, net = Module trained_module,
         optimizer = SGD 0.1 0.9 (4 / 100000),
         files = [''logs/ckpt.pth.tar'' \<mapsto> stored_checkpoint]\<rparr> = [0 .. 149]
   \<and> resume example_args [''logs/ckpt.pth.tar'' \<mapsto> stored_checkpoint] fresh_module
     = Inr trained_module
   \<and> resume example_args [''logs/ckpt.pth.tar'' \<mapsto> state_dict (Module trained_module)]
        fresh_module
     = Inr trained_module"
proof -
  let ?fs = "[''logs/ckpt.pth.tar'' \<mapsto> stored_checkpoint]"
  let ?raw = "[''logs/ckpt.pth.tar'' \<mapsto> state_dict (Module trained_module)]"
  let ?s = "\<lparr>best_acc = 0, start_epoch = 0, net = Module trained_module,
            optimizer = SGD 0.1 0.9 (4 / 100000), files = ?fs\<rparr>"
  have p: "ckpt_path example_args = Some ''logs/ckpt.pth.tar''"
    by (simp add: example_args_def)
  have w: "resume example_args ?fs fresh_module = Inr trained_module"
    using load_example by (simp add: resume_def p stored_checkpoint_def)
  have raw: "resume example_args ?raw fresh_module = Inr trained_module"
    using load_example by (simp add: resume_def p trained_module_def)
  have fields: "lr example_args = 0.1" "wd example_args = 4 / 100000" "n_gpu example_args = 1"
    by (simp_all add: example_args_def default_args_def)
  have st: "start_session example_args False fresh_module fresh_module ?fs = Inr ?s"
    by (simp add: start_session_def example_get_model w fields)
  have "epoch_range example_args ?s = [0 .. n_epoch example_args - 1]"
    using resume_loads_weights_only
            [of example_args False fresh_module fresh_module ?fs ?s, THEN conjunct1] st
    by blast
  moreover have "n_epoch example_args - 1 = 149"
    by (simp add: example_args_def default_args_def)
  ultimately show ?thesis using st w raw by simp
qed

end
